theory Spec2Isabelle
  imports Main "HOL-Library.Word"
begin

unbundle bit_operations_syntax

section \<open>Values and errors\<close>

text \<open>
  A byte of a \<open>bytes\<close> object is an 8-bit word; iterating over \<open>bytes\<close> yields its
  unsigned value (\<open>uint\<close>). Python integers are unbounded (\<open>int\<close>). Every exception the
  modelled code can raise is a constructor of \<open>error\<close>, and a function that may raise
  returns \<open>error + 'a\<close>. A \<open>str\<close> is the list of its code points; \<open>lit\<close> turns a string
  literal into one.
\<close>

type_synonym byte = "8 word"

datatype error =
    ValueError "nat list"
  | KeyError string
  | StructError
  | AttributeError
  | OverflowError
  | TypeError
  | IndexError
  | UnicodeDecodeError
  | ZeroDivisionError

definition lit :: "string \<Rightarrow> nat list" where
  "lit s = map of_char s"

definition ebind :: "error + 'a \<Rightarrow> ('a \<Rightarrow> error + 'b) \<Rightarrow> error + 'b" where
  "ebind m f = (case m of Inl e \<Rightarrow> Inl e | Inr x \<Rightarrow> f x)"

section \<open>Bit and byte helpers (utils/io.py)\<close>

text \<open>
  \<open>bytes_2_bits\<close>: for each byte the list \<open>[(byte >> i) & 1 for i in range(8)]\<close>,
  reversed when \<open>swap\<close> is set, appended to the result.
\<close>

definition bits8 :: "byte \<Rightarrow> bool \<Rightarrow> int list" where
  "bits8 b swap =
     (let l = map (\<lambda>i. drop_bit i (uint b) AND 1) [0..<8]
      in if swap then rev l else l)"

fun bytes_2_bits :: "byte list \<Rightarrow> bool \<Rightarrow> int list" where
  "bytes_2_bits [] swap = []"
| "bytes_2_bits (b # bs) swap = bits8 b swap @ bytes_2_bits bs swap"

text \<open>
  \<open>str\<close> of an integer (decimal, with a minus sign) and \<open>int(s, base=2)\<close> on the
  strings that \<open>''.join(str(b) ...)\<close> can produce: an optional leading minus sign
  followed by binary digits; anything else, the empty string included, is a
  \<open>ValueError\<close>.
\<close>

definition digit_char :: "nat \<Rightarrow> char" where
  "digit_char d = ''0123456789'' ! d"

function str_nat :: "nat \<Rightarrow> string" where
  "str_nat n = (if n < 10 then [digit_char n] else str_nat (n div 10) @ [digit_char (n mod 10)])"
  by pat_completeness auto
termination
  by (relation "measure id") auto

definition str_int :: "int \<Rightarrow> string" where
  "str_int i = (if i < 0 then CHR ''-'' # str_nat (nat (- i)) else str_nat (nat i))"

definition bin_digit :: "char \<Rightarrow> int" where
  "bin_digit c = (if c = CHR ''1'' then 1 else 0)"

definition parse_bin :: "string \<Rightarrow> error + int" where
  "parse_bin s =
     (if s = [] \<or> \<not> list_all (\<lambda>c. c = CHR ''0'' \<or> c = CHR ''1'') s
      then Inl (ValueError (lit ''invalid literal for int() with base 2''))
      else Inr (foldl (\<lambda>acc c. 2 * acc + bin_digit c) 0 s))"

definition int_base2 :: "string \<Rightarrow> error + int" where
  "int_base2 s =
     (case s of
        c # r \<Rightarrow> if c = CHR ''-'' then ebind (parse_bin r) (\<lambda>v. Inr (- v)) else parse_bin s
      | [] \<Rightarrow> parse_bin s)"

text \<open>
  \<open>bits_2_int\<close>: the bits, reversed when \<open>swap\<close> is set, are written as a string
  of digits that is read as a binary numeral, most significant digit first.
\<close>

definition bits_2_int :: "int list \<Rightarrow> bool \<Rightarrow> error + int" where
  "bits_2_int bits_list swap =
     int_base2 (concat (map str_int (if swap then rev bits_list else bits_list)))"

text \<open>Python's slice \<open>xs[i:j]\<close> for non-negative bounds.\<close>

definition slice :: "nat \<Rightarrow> nat \<Rightarrow> 'a list \<Rightarrow> 'a list" where
  "slice i j xs = drop i (take j xs)"

subsection \<open>Regrouping bits into bytes\<close>

text \<open>
  The inverse direction named by the specification: cut the bit list into groups of
  eight and read each group as a byte, least significant bit first, after undoing the
  per-byte reversal when \<open>swap\<close> is set.
\<close>

definition byte_of_bits :: "int list \<Rightarrow> bool \<Rightarrow> byte" where
  "byte_of_bits g swap =
     word_of_int (foldr (\<lambda>b acc. b + 2 * acc) (if swap then rev g else g) 0)"

fun bits_2_bytes :: "int list \<Rightarrow> bool \<Rightarrow> byte list" where
  "bits_2_bytes (b0 # b1 # b2 # b3 # b4 # b5 # b6 # b7 # r) swap =
     byte_of_bits [b0, b1, b2, b3, b4, b5, b6, b7] swap # bits_2_bytes r swap"
| "bits_2_bytes r swap = []"

section \<open>Dates and times (Python's datetime)\<close>

text \<open>
  A \<open>datetime\<close> is held as its proleptic Gregorian ordinal (day 1 is 0001-01-01) and
  its time of day; \<open>ymd2ord\<close> and \<open>ord2ymd\<close> are the library's conversions between
  the ordinal and (year, month, day). A \<open>timedelta\<close> is its total number of
  microseconds. The constructor checks its fields in the library's order; an addition
  whose result leaves the years 1 to 9999 raises \<open>OverflowError\<close>.
\<close>

record datetime =
  dt_ordinal :: int
  dt_hour :: int
  dt_minute :: int
  dt_second :: int
  dt_microsecond :: int

definition is_leap :: "int \<Rightarrow> bool" where
  "is_leap y = (y mod 4 = 0 \<and> (y mod 100 \<noteq> 0 \<or> y mod 400 = 0))"

definition days_in_month :: "int \<Rightarrow> int \<Rightarrow> int" where
  "days_in_month y m =
     (if m = 2 \<and> is_leap y then 29
      else [31, 28, 31, 30, 31, 30, 31, 31, 30, 31, 30, 31] ! nat (m - 1))"

definition days_before_month_table :: "int \<Rightarrow> int" where
  "days_before_month_table m = [0, 31, 59, 90, 120, 151, 181, 212, 243, 273, 304, 334] ! nat (m - 1)"

definition days_before_month :: "int \<Rightarrow> int \<Rightarrow> int" where
  "days_before_month y m = days_before_month_table m + (if m > 2 \<and> is_leap y then 1 else 0)"

definition days_before_year :: "int \<Rightarrow> int" where
  "days_before_year y = (y - 1) * 365 + (y - 1) div 4 - (y - 1) div 100 + (y - 1) div 400"

definition ymd2ord :: "int \<Rightarrow> int \<Rightarrow> int \<Rightarrow> int" where
  "ymd2ord y m d = days_before_year y + days_before_month y m + d"



definition datetime_new ::
  "int \<Rightarrow> int \<Rightarrow> int \<Rightarrow> int \<Rightarrow> int \<Rightarrow> int \<Rightarrow> int \<Rightarrow> error + datetime" where
  "datetime_new y m d hh mm ss us =
     (if \<not> (1 \<le> y \<and> y \<le> 9999) then Inl (ValueError (lit ''year is out of range''))
      else if \<not> (1 \<le> m \<and> m \<le> 12) then Inl (ValueError (lit ''month must be in 1..12''))
      else if \<not> (1 \<le> d \<and> d \<le> days_in_month y m)
        then Inl (ValueError (lit ''day is out of range for month''))
      else if \<not> (0 \<le> hh \<and> hh \<le> 23) then Inl (ValueError (lit ''hour must be in 0..23''))
      else if \<not> (0 \<le> mm \<and> mm \<le> 59) then Inl (ValueError (lit ''minute must be in 0..59''))
      else if \<not> (0 \<le> ss \<and> ss \<le> 59) then Inl (ValueError (lit ''second must be in 0..59''))
      else if \<not> (0 \<le> us \<and> us \<le> 999999)
        then Inl (ValueError (lit ''microsecond must be in 0..999999''))
      else Inr \<lparr>dt_ordinal = ymd2ord y m d, dt_hour = hh, dt_minute = mm, dt_second = ss,
                 dt_microsecond = us\<rparr>)"

definition us_per_day :: int where
  "us_per_day = 86400000000"





text \<open>
  \<open>timedelta / n\<close> for an integer \<open>n\<close>: the microseconds divided and rounded to the
  nearest, ties to even; division by zero raises.
\<close>

definition divide_and_round :: "int \<Rightarrow> int \<Rightarrow> int" where
  "divide_and_round a b =
     (let q = a div b; r = 2 * (a mod b);
          greater_than_half = (if b > 0 then r > b else r < b)
      in if greater_than_half \<or> (r = b \<and> q mod 2 = 1) then q + 1 else q)"

section \<open>Text: decoding bytes and stripping white space\<close>

text \<open>
  \<open>bytes.decode()\<close>: strict UTF-8 to a list of code points, and \<open>str.strip()\<close>,
  which removes the white space at both ends.
\<close>

definition is_cont :: "nat \<Rightarrow> bool" where
  "is_cont c = (128 \<le> c \<and> c \<le> 191)"

fun utf8 :: "nat list \<Rightarrow> error + nat list" where
  "utf8 [] = Inr []"
| "utf8 (b # r) =
     (if b < 128 then ebind (utf8 r) (\<lambda>cs. Inr (b # cs))
      else if 194 \<le> b \<and> b \<le> 223 then
        (case r of
           c1 # r1 \<Rightarrow>
             if is_cont c1
             then ebind (utf8 r1) (\<lambda>cs. Inr (((b - 192) * 64 + (c1 - 128)) # cs))
             else Inl UnicodeDecodeError
         | _ \<Rightarrow> Inl UnicodeDecodeError)
      else if 224 \<le> b \<and> b \<le> 239 then
        (case r of
           c1 # c2 # r2 \<Rightarrow>
             if (if b = 224 then 160 else 128) \<le> c1 \<and> c1 \<le> (if b = 237 then 159 else 191)
                \<and> is_cont c2
             then ebind (utf8 r2)
                    (\<lambda>cs. Inr (((b - 224) * 4096 + (c1 - 128) * 64 + (c2 - 128)) # cs))
             else Inl UnicodeDecodeError
         | _ \<Rightarrow> Inl UnicodeDecodeError)
      else if 240 \<le> b \<and> b \<le> 244 then
        (case r of
           c1 # c2 # c3 # r3 \<Rightarrow>
             if (if b = 240 then 144 else 128) \<le> c1 \<and> c1 \<le> (if b = 244 then 143 else 191)
                \<and> is_cont c2 \<and> is_cont c3
             then ebind (utf8 r3)
                    (\<lambda>cs. Inr (((b - 240) * 262144 + (c1 - 128) * 4096 + (c2 - 128) * 64
                                 + (c3 - 128)) # cs))
             else Inl UnicodeDecodeError
         | _ \<Rightarrow> Inl UnicodeDecodeError)
      else Inl UnicodeDecodeError)"

definition decode :: "byte list \<Rightarrow> error + nat list" where
  "decode bs = utf8 (map unat bs)"

definition is_space :: "nat \<Rightarrow> bool" where
  "is_space c =
     ((9 \<le> c \<and> c \<le> 13) \<or> (28 \<le> c \<and> c \<le> 32) \<or> c = 133 \<or> c = 160 \<or> c = 5760
      \<or> (8192 \<le> c \<and> c \<le> 8202) \<or> c = 8232 \<or> c = 8233 \<or> c = 8239 \<or> c = 8287
      \<or> c = 12288)"

definition strip :: "nat list \<Rightarrow> nat list" where
  "strip cs = rev (dropWhile is_space (rev (dropWhile is_space cs)))"

section \<open>Binary block reader (utils/io.py)\<close>

text \<open>
  Values held by a decoded record. A \<open>float\<close> unpacked from 4 or 8 bytes is kept as
  the IEEE-754 bit pattern it was decoded from; floating-point arithmetic is not
  modelled. \<open>PNaN\<close> is the value \<open>float('nan')\<close>. A \<open>str\<close> is its list of code points, an
  array of 4-byte floats the list of their bit patterns. \<open>PFloatDec m e\<close> is
  the float that \<open>float\<close> returns for the decimal numeral with digits \<open>m\<close> and \<open>e\<close>
  digits after the dot, that is the float nearest to \<open>m / 10 ^ e\<close>.
\<close>

datatype pyval =
    PInt int
  | PBytes "byte list"
  | PFloat32 "32 word"
  | PFloat64 "64 word"
  | PStr "nat list"
  | PBool bool
  | PNaN
  | PDatetime datetime
  | PArray "32 word list"
  | PFloatDec int nat
  | PFloatOp string "pyval list"

type_synonym pydict = "string \<rightharpoonup> pyval"

text \<open>
  The \<open>struct\<close> format mini-language, for the format characters that occur in the
  format tables: \<open>x\<close> (padding), \<open>c\<close>, \<open>h\<close>, \<open>i\<close>, \<open>f\<close>, \<open>d\<close>, \<open>s\<close>, each with an
  optional decimal repeat count. With the byte orders \<open><\<close> and \<open>>\<close> the sizes are the
  standard ones and there is no alignment.
\<close>

datatype endian = Little | Big

datatype fcode = FPad | FChar | FShort | FInt | FFloat | FDouble | FStr

definition fcode_of :: "char \<Rightarrow> fcode option" where
  "fcode_of c =
     (if c = CHR ''x'' then Some FPad
      else if c = CHR ''c'' then Some FChar
      else if c = CHR ''h'' then Some FShort
      else if c = CHR ''i'' then Some FInt
      else if c = CHR ''f'' then Some FFloat
      else if c = CHR ''d'' then Some FDouble
      else if c = CHR ''s'' then Some FStr
      else None)"

definition is_digit :: "char \<Rightarrow> bool" where
  "is_digit c = (of_char (CHR ''0'') \<le> (of_char c :: nat) \<and> (of_char c :: nat) \<le> of_char (CHR ''9''))"

definition digit_val :: "char \<Rightarrow> nat" where
  "digit_val c = of_char c - of_char (CHR ''0'')"

fun parse_fmt :: "string \<Rightarrow> nat option \<Rightarrow> error + (nat \<times> fcode) list" where
  "parse_fmt [] None = Inr []"
| "parse_fmt [] (Some n) = Inl StructError"
| "parse_fmt (c # cs) acc =
     (if is_digit c
      then parse_fmt cs (Some (10 * (case acc of None \<Rightarrow> 0 | Some n \<Rightarrow> n) + digit_val c))
      else (case fcode_of c of
              None \<Rightarrow> Inl StructError
            | Some k \<Rightarrow>
                ebind (parse_fmt cs None)
                  (\<lambda>r. Inr ((case acc of None \<Rightarrow> 1 | Some n \<Rightarrow> n, k) # r))))"

fun code_size :: "fcode \<Rightarrow> nat" where
  "code_size FPad = 1"
| "code_size FChar = 1"
| "code_size FShort = 2"
| "code_size FInt = 4"
| "code_size FFloat = 4"
| "code_size FDouble = 8"
| "code_size FStr = 1"

fun items_size :: "(nat \<times> fcode) list \<Rightarrow> nat" where
  "items_size [] = 0"
| "items_size ((n, k) # r) = n * code_size k + items_size r"

definition calcsize :: "string \<Rightarrow> error + nat" where
  "calcsize fmt = ebind (parse_fmt fmt None) (\<lambda>items. Inr (items_size items))"

text \<open>Integers from bytes: unsigned little-endian value, then two's complement.\<close>

fun le_uint :: "byte list \<Rightarrow> int" where
  "le_uint [] = 0"
| "le_uint (b # bs) = uint b + 256 * le_uint bs"

definition bytes_uint :: "endian \<Rightarrow> byte list \<Rightarrow> int" where
  "bytes_uint e bs = le_uint (case e of Little \<Rightarrow> bs | Big \<Rightarrow> rev bs)"

definition bytes_sint :: "endian \<Rightarrow> byte list \<Rightarrow> int" where
  "bytes_sint e bs =
     (let u = bytes_uint e bs; w = 8 * length bs
      in if u < 2 ^ (w - 1) then u else u - 2 ^ w)"

fun unpack_one :: "endian \<Rightarrow> fcode \<Rightarrow> byte list \<Rightarrow> pyval" where
  "unpack_one e FChar bs = PBytes bs"
| "unpack_one e FShort bs = PInt (bytes_sint e bs)"
| "unpack_one e FInt bs = PInt (bytes_sint e bs)"
| "unpack_one e FFloat bs = PFloat32 (word_of_int (bytes_uint e bs))"
| "unpack_one e FDouble bs = PFloat64 (word_of_int (bytes_uint e bs))"
| "unpack_one e FStr bs = PBytes bs"
| "unpack_one e FPad bs = PBytes bs"

fun unpack_rep :: "endian \<Rightarrow> nat \<Rightarrow> fcode \<Rightarrow> byte list \<Rightarrow> pyval list" where
  "unpack_rep e 0 k bs = []"
| "unpack_rep e (Suc n) k bs =
     unpack_one e k (take (code_size k) bs) # unpack_rep e n k (drop (code_size k) bs)"

fun unpack_items :: "endian \<Rightarrow> (nat \<times> fcode) list \<Rightarrow> byte list \<Rightarrow> pyval list" where
  "unpack_items e [] bs = []"
| "unpack_items e ((n, k) # r) bs =
     (case k of
        FPad \<Rightarrow> []
      | FStr \<Rightarrow> [PBytes (take n bs)]
      | _ \<Rightarrow> unpack_rep e n k bs)
     @ unpack_items e r (drop (n * code_size k) bs)"

text \<open>
  \<open>struct.unpack\<close>: the buffer must have exactly the size the format requires,
  otherwise \<open>struct.error\<close>.
\<close>

definition unpack :: "endian \<Rightarrow> string \<Rightarrow> byte list \<Rightarrow> error + pyval list" where
  "unpack e fmt bs =
     ebind (parse_fmt fmt None)
       (\<lambda>items. if length bs \<noteq> items_size items then Inl StructError
                 else Inr (unpack_items e items bs))"

text \<open>
  An opened binary file: its content and the read position. \<open>read\<close> returns at most
  the bytes that are left and advances the position by what it returned.
\<close>

record pyfile =
  content :: "byte list"
  pos :: nat

definition seek :: "pyfile \<Rightarrow> nat \<Rightarrow> pyfile" where
  "seek f p = f\<lparr>pos := p\<rparr>"

definition fread :: "pyfile \<Rightarrow> nat \<Rightarrow> byte list \<times> pyfile" where
  "fread f n =
     (let bs = take n (drop (pos f) (content f))
      in (bs, f\<lparr>pos := pos f + length bs\<rparr>))"

text \<open>\<open>dict(zip(keys, values))\<close>: pairs up to the shorter list, a later key wins.\<close>

definition dict_zip :: "string list \<Rightarrow> pyval list \<Rightarrow> pydict" where
  "dict_zip ks vs = map_of (rev (zip ks vs))"

type_synonym ffmt = "(string option \<times> string) list"

definition field_keys :: "ffmt \<Rightarrow> string list" where
  "field_keys ff = concat (map (\<lambda>(k, s). case k of None \<Rightarrow> [] | Some n \<Rightarrow> [n]) ff)"

definition read_bin_block :: "pyfile \<Rightarrow> ffmt \<Rightarrow> nat option \<Rightarrow> endian \<Rightarrow> error + (pydict \<times> pyfile)" where
  "read_bin_block f ff p e =
     (let fmt = concat (map snd ff)
      in ebind (calcsize fmt)
           (\<lambda>nbytes.
              let f1 = (case p of None \<Rightarrow> f | Some q \<Rightarrow> seek f q);
                  fkeys = field_keys ff;
                  (bs, f2) = fread f1 nbytes
              in ebind (unpack e fmt bs) (\<lambda>fvals. Inr (dict_zip fkeys fvals, f2))))"

text \<open>The format of the specification's example: a short, two padding bytes, a float.\<close>

definition test_ffmt :: ffmt where
  "test_ffmt = [(Some ''a'', ''h''), (None, ''2x''), (Some ''b'', ''f'')]"

section \<open>Floating point (IEEE-754 binary64) for the operations on header fields\<close>

text \<open>
  A finite double is a dyadic number: a pair \<open>(m, e)\<close> stands for \<open>m * 2 ^ e\<close>. The
  operations below are the correctly rounded ones (round to nearest, ties to even, 53
  bits), for operands and results in the normal range, which is where the header
  fields put them: the quotient of two positive integers, the split of
  \<open>math.modf\<close>, the product with an integer constant and the truncation of \<open>int\<close>.
\<close>

type_synonym dyadic = "int \<times> int"

function bitlen :: "int \<Rightarrow> nat" where
  "bitlen n = (if n \<le> 0 then 0 else Suc (bitlen (n div 2)))"
  by pat_completeness auto
termination
  by (relation "measure nat") auto

text \<open>\<open>a / b\<close> for integers \<open>a \<ge> 0\<close> and \<open>b > 0\<close>: the double nearest to the quotient.\<close>

definition int_truediv :: "int \<Rightarrow> int \<Rightarrow> dyadic" where
  "int_truediv a b =
     (if a = 0 then (0, 0)
      else let k0 = 53 + int (bitlen b) - int (bitlen a);
               k = (if b * 2 ^ 53 * 2 ^ nat (- k0) \<le> a * 2 ^ nat k0 then k0 - 1 else k0)
           in (divide_and_round (a * 2 ^ nat k) (b * 2 ^ nat (- k)), - k))"

text \<open>\<open>math.modf\<close> of a double that is not negative: its integral and fractional parts.\<close>

definition modf_int :: "dyadic \<Rightarrow> int" where
  "modf_int x = (case x of (m, e) \<Rightarrow> if 0 \<le> e then m * 2 ^ nat e else m div 2 ^ nat (- e))"

definition modf_frac :: "dyadic \<Rightarrow> dyadic" where
  "modf_frac x = (case x of (m, e) \<Rightarrow> if 0 \<le> e then (0, 0) else (m mod 2 ^ nat (- e), e))"

text \<open>The product of a double that is not negative with a positive integer constant.\<close>

definition round53 :: "dyadic \<Rightarrow> dyadic" where
  "round53 x =
     (case x of (m, e) \<Rightarrow>
        if bitlen m \<le> 53 then (m, e)
        else (divide_and_round m (2 ^ (bitlen m - 53)), e + int (bitlen m - 53)))"

definition float_mul_const :: "dyadic \<Rightarrow> int \<Rightarrow> dyadic" where
  "float_mul_const x c = (case x of (m, e) \<Rightarrow> round53 (m * c, e))"

text \<open>
  Lines 118 to 120 and 127 to 128 of \<open>read_bruker\<close>:
  \<open>secd, seci = math.modf(v / 10)\<close>, then \<open>int(seci)\<close> and \<open>int(secd * 1e6)\<close>.
\<close>

definition bruker_seci :: "int \<Rightarrow> int" where
  "bruker_seci v = modf_int (int_truediv v 10)"

definition bruker_usec :: "int \<Rightarrow> int" where
  "bruker_usec v = modf_int (float_mul_const (modf_frac (int_truediv v 10)) 1000000)"

text \<open>
  A 4-byte float as a dyadic number: sign, eight exponent bits, 23 fraction bits. The
  exponent 255 is an infinity (fraction 0) or a NaN.
\<close>

definition float32_exponent :: "32 word \<Rightarrow> nat" where
  "float32_exponent w = (unat w div 2 ^ 23) mod 256"

definition float32_fraction :: "32 word \<Rightarrow> nat" where
  "float32_fraction w = unat w mod 2 ^ 23"

definition float32_dyadic :: "32 word \<Rightarrow> dyadic" where
  "float32_dyadic w =
     (let s = (if bit w 31 then - 1 else 1);
          E = float32_exponent w; F = float32_fraction w
      in if E = 0 then (s * int F, - 149) else (s * (2 ^ 23 + int F), int E - 150))"

text \<open>
  The microseconds of \<open>datetime.timedelta(seconds=hour * 3600)\<close> for a 4-byte float
  \<open>hour\<close>. The product with 3600 has at most 36 significant bits and is exact; so is
  the product of its fractional part with \<open>1e6 = 15625 * 64\<close>; the constructor then
  rounds the total to the nearest microsecond, ties to even. An infinity raises
  \<open>OverflowError\<close>, a NaN \<open>ValueError\<close>, and so does a magnitude of more than
  999999999 days.
\<close>

definition dyadic_times_round :: "dyadic \<Rightarrow> int \<Rightarrow> int" where
  "dyadic_times_round x c =
     (case x of (m, e) \<Rightarrow>
        if 0 \<le> e then m * 2 ^ nat e * c else divide_and_round (m * c) (2 ^ nat (- e)))"

definition timedelta_hours :: "pyval \<Rightarrow> error + int" where
  "timedelta_hours hour =
     (case hour of
        PFloat32 w \<Rightarrow>
          if float32_exponent w = 255
          then (if float32_fraction w = 0 then Inl OverflowError
                else Inl (ValueError (lit ''cannot convert float NaN to integer'')))
          else let us = dyadic_times_round (float32_dyadic w) (3600 * 1000000)
               in if - 999999999 \<le> us div us_per_day \<and> us div us_per_day \<le> 999999999
                  then Inr us else Inl OverflowError
      | _ \<Rightarrow> Inl TypeError)"

text \<open>
  Float results that are only stored are kept as the operation and its operands
  (\<open>PFloatOp\<close>). A float division raises \<open>ZeroDivisionError\<close> when the divisor is a
  zero: an 8-byte float with all bits but the sign clear, or the integer 0.
\<close>

definition is_zero :: "pyval \<Rightarrow> bool" where
  "is_zero v =
     (case v of
        PFloat64 w \<Rightarrow> unat w mod 2 ^ 63 = 0
      | PFloat32 w \<Rightarrow> unat w mod 2 ^ 31 = 0
      | PInt i \<Rightarrow> i = 0
      | _ \<Rightarrow> False)"

definition float_truediv :: "pyval \<Rightarrow> pyval \<Rightarrow> error + pyval" where
  "float_truediv a b =
     (if is_zero b then Inl ZeroDivisionError else Inr (PFloatOp ''truediv'' [a, b]))"

section \<open>Format tables (io/_iofmt.py)\<close>

definition fts1_header_ffmt :: ffmt where
  "fts1_header_ffmt = [
    (None, ''14x''), (Some ''source'', ''10s''), (None, ''12x''),
    (Some ''dayofyear_begin'', ''h''), (Some ''year_begin'', ''h''),
    (Some ''dayofyear_end'', ''h''), (Some ''year_end'', ''h''),
    (Some ''correction_factor'', ''f''), (None, ''222x''), (Some ''aperture'', ''f''),
    (Some ''nb_scan_backward'', ''h''), (None, ''2x''), (Some ''ftype'', ''12s''),
    (None, ''308x''), (Some ''n_points'', ''i''), (Some ''wavenumber_begin'', ''d''),
    (Some ''wavenumber_end'', ''d''), (Some ''opd'', ''d''),
    (Some ''sun_elevation'', ''f''), (None, ''10x''), (Some ''sn_ratio'', ''h''),
    (Some ''secz'', ''f''), (Some ''hour_avg'', ''f''), (None, ''138x''),
    (Some ''name'', ''12s''), (None, ''68x''), (Some ''nb_scan_forward'', ''h'')]"

definition bruker_header_ffmt :: ffmt where
  "bruker_header_ffmt = [
    (None, ''4x''), (Some ''name'', ''12s''), (None, ''4x''), (Some ''n_points'', ''i''),
    (None, ''236x''), (Some ''n_points2'', ''i''), (Some ''n_scan_forward'', ''i''),
    (None, ''4x''), (Some ''scale_factor'', ''i''), (Some ''waven_begin_i'', ''i''),
    (Some ''waven_begin_d'', ''i''), (Some ''waven_end_i'', ''i''),
    (Some ''waven_end_d'', ''i''), (Some ''date_block'', ''4s''),
    (Some ''time_block'', ''4s''), (None, ''16x''), (Some ''sn_ratio'', ''i''),
    (None, ''36x''), (Some ''aperture_id'', ''i''), (None, ''12x''),
    (Some ''beamsplitter_id'', ''i''), (None, ''152x''), (Some ''laserf_i'', ''i''),
    (Some ''laserf_d'', ''i''), (None, ''32x''), (Some ''filter_id'', ''i''),
    (None, ''124x''), (Some ''source_id'', ''i''), (None, ''348x''),
    (Some ''resolution_i'', ''i''), (Some ''resolution_d'', ''i''), (None, ''92x''),
    (Some ''correction_factor'', ''f''), (Some ''sun_elevation'', ''f''), (None, ''124x'')]"



definition rinsland_datahdr_ffmt :: ffmt where
  "rinsland_datahdr_ffmt = [
    (Some ''wavenumber_begin'', ''d''), (Some ''wavenumber_end'', ''d''),
    (Some ''wavenumber_step'', ''d''), (Some ''n_points'', ''i'')]"

section \<open>SPEC catalog reader: header and records (io/legacy.py, read_spec)\<close>

text \<open>\<open>d[k]\<close> raises \<open>KeyError\<close> when the key is missing.\<close>

definition getitem :: "pydict \<Rightarrow> string \<Rightarrow> error + pyval" where
  "getitem d k = (case d k of None \<Rightarrow> Inl (KeyError k) | Some v \<Rightarrow> Inr v)"



text \<open>
  The record that a block of bytes decodes to under a format table: what
  \<open>read_bin_block\<close> returns when the read yields exactly these bytes.
\<close>

definition decode_block :: "endian \<Rightarrow> ffmt \<Rightarrow> byte list \<Rightarrow> error + pydict" where
  "decode_block e ff bs =
     ebind (unpack e (concat (map snd ff)) bs) (\<lambda>vs. Inr (dict_zip (field_keys ff) vs))"

section \<open>SPEC catalog reader: post-processing of a record (io/legacy.py, read_spec)\<close>

text \<open>\<open>d.pop(k)\<close> returns the value and removes the key; \<open>xs[i]\<close> raises out of range.\<close>

definition pop :: "pydict \<Rightarrow> string \<Rightarrow> error + (pyval \<times> pydict)" where
  "pop d k = (case d k of None \<Rightarrow> Inl (KeyError k) | Some v \<Rightarrow> Inr (v, d(k := None)))"

definition index :: "'a list \<Rightarrow> nat \<Rightarrow> error + 'a" where
  "index xs i = (if i < length xs then Inr (xs ! i) else Inl IndexError)"

definition as_bytes :: "pyval \<Rightarrow> error + byte list" where
  "as_bytes v = (case v of PBytes bs \<Rightarrow> Inr bs | _ \<Rightarrow> Inl TypeError)"

text \<open>
  Lines 197 to 213: the two one-byte fields are replaced by
  \<open>bits_2_int(bytes_2_bits(...))\<close>, then four fields are compared with their
  sentinel and set to \<open>float('nan')\<close> on equality.
\<close>

definition undefined_if :: "pydict \<Rightarrow> string \<Rightarrow> int \<Rightarrow> error + pydict" where
  "undefined_if r k sentinel =
     ebind (getitem r k) (\<lambda>v. Inr (if v = PInt sentinel then r(k \<mapsto> PNaN) else r))"

definition parse_byte_field :: "pydict \<Rightarrow> string \<Rightarrow> error + pydict" where
  "parse_byte_field r k =
     ebind (pop r k) (\<lambda>(v, r1).
     ebind (as_bytes v) (\<lambda>bs.
     ebind (bits_2_int (bytes_2_bits bs False) False) (\<lambda>n. Inr (r1(k \<mapsto> PInt n)))))"

definition spec_undefined :: "pydict \<Rightarrow> error + pydict" where
  "spec_undefined r =
     ebind (parse_byte_field r ''relative_humidity'') (\<lambda>r1.
     ebind (parse_byte_field r1 ''tropopause_height'') (\<lambda>r2.
     ebind (undefined_if r2 ''temperature'' (- 9999)) (\<lambda>r3.
     ebind (undefined_if r3 ''pressure'' (- 9999)) (\<lambda>r4.
     ebind (undefined_if r4 ''relative_humidity'' (- 99)) (\<lambda>r5.
     undefined_if r5 ''tropopause_height'' (- 9))))))"

text \<open>
  Lines 240 to 253: the composite field \<open>quality\<close>. \<open>bool(qb[i])\<close> is true for a
  non-zero bit; \<open>qb[3:5]\<close> and \<open>qb[13:]\<close> are read by \<open>bits_2_int\<close> without swap.
\<close>

definition set_flag :: "int list \<Rightarrow> nat \<Rightarrow> bool \<Rightarrow> string \<Rightarrow> pydict \<Rightarrow> error + pydict" where
  "set_flag qb i negate k r =
     ebind (index qb i) (\<lambda>b. Inr (r(k \<mapsto> PBool (if negate then \<not> (b \<noteq> 0) else b \<noteq> 0))))"

definition set_bits :: "int list \<Rightarrow> string \<Rightarrow> pydict \<Rightarrow> error + pydict" where
  "set_bits bits k r = ebind (bits_2_int bits False) (\<lambda>n. Inr (r(k \<mapsto> PInt n)))"

definition spec_quality :: "pydict \<Rightarrow> error + pydict" where
  "spec_quality r =
     ebind (pop r ''quality'') (\<lambda>(v, r0).
     ebind (as_bytes v) (\<lambda>bs.
     let qb = bytes_2_bits bs False in
     ebind (set_flag qb 0 False ''is_bad_spectrum'' r0) (\<lambda>r1.
     ebind (set_flag qb 1 False ''is_mean_spectrum'' r1) (\<lambda>r2.
     ebind (set_flag qb 2 False ''is_bad_zero'' r2) (\<lambda>r3.
     ebind (set_bits (slice 3 5 qb) ''fringing_level'' r3) (\<lambda>r4.
     ebind (set_flag qb 5 False ''has_bad_sn_ratio'' r4) (\<lambda>r5.
     ebind (set_flag qb 6 False ''has_bad_ils'' r5) (\<lambda>r6.
     ebind (set_flag qb 7 True ''is_sun_centered'' r6) (\<lambda>r7.
     ebind (set_flag qb 8 False ''has_pollution'' r7) (\<lambda>r8.
     ebind (set_flag qb 9 False ''has_slow_signal_variation'' r8) (\<lambda>r9.
     ebind (set_flag qb 10 False ''has_fast_signal_variation'' r9) (\<lambda>r10.
     ebind (set_flag qb 11 False ''has_technical_problem'' r10) (\<lambda>r11.
     set_bits (drop 13 qb) ''weather_id'' r11)))))))))))))"

text \<open>The digit that \<open>str\<close> writes for a bit.\<close>

definition bitchar :: "bool \<Rightarrow> char" where
  "bitchar p = (if p then CHR ''1'' else CHR ''0'')"

section \<open>Bruker reader: header post-processing (io/legacy.py, read_bruker)\<close>

text \<open>
  Lines 107 to 113. On a mismatch the arguments of \<open>format\<close> are evaluated from left
  to right before the \<open>ValueError\<close> is built: \<open>spec['name']\<close>, \<open>spec['n_points1']\<close>,
  \<open>spec['n_points2']\<close>.
\<close>

definition str_val :: "pyval \<Rightarrow> nat list" where
  "str_val v = (case v of PStr cs \<Rightarrow> cs | PInt i \<Rightarrow> lit (str_int i) | _ \<Rightarrow> [])"

definition mismatch_message :: "pyval \<Rightarrow> pyval \<Rightarrow> pyval \<Rightarrow> nat list" where
  "mismatch_message nm c1 c2 =
     lit ''number of points mismatch in file '' @ str_val nm @ lit '' ('' @ str_val c1
     @ lit '', '' @ str_val c2 @ lit '')''"

definition bruker_check_points :: "pydict \<Rightarrow> error + pydict" where
  "bruker_check_points spec =
     ebind (getitem spec ''n_points'') (\<lambda>a.
     ebind (getitem spec ''n_points2'') (\<lambda>b.
       if a \<noteq> b
       then ebind (getitem spec ''name'') (\<lambda>nm.
            ebind (getitem spec ''n_points1'') (\<lambda>c1.
            ebind (getitem spec ''n_points2'') (\<lambda>c2.
              Inl (ValueError (mismatch_message nm c1 c2)))))
       else ebind (pop spec ''n_points2'') (\<lambda>(v, spec1). Inr (spec1(''n_points'' \<mapsto> v)))))"

text \<open>
  Lines 116 to 129. The blocks are turned into bits without swap; every field is read
  by \<open>bits_2_int(..., swap=True)\<close> from a slice. The packed value \<open>v\<close> of bits
  \<open>[0:12)\<close> is divided by 10 in floating point: the integer part of the quotient is
  \<open>v div 10\<close> (the quotient of an integer below 4096 by 10 is never within rounding
  distance of the next integer); the microseconds \<open>int(secd * 1e6)\<close> depend on the
  rounding of the fractional part and are taken from the parameter \<open>usec\<close>.
\<close>

definition bruker_datetime_avg ::
  "byte list \<Rightarrow> byte list \<Rightarrow> (int \<Rightarrow> int) \<Rightarrow> error + datetime" where
  "bruker_datetime_avg date_block time_block usec =
     (let dateb = bytes_2_bits date_block False;
          timeb = bytes_2_bits time_block False
      in ebind (bits_2_int (slice 0 12 timeb) True) (\<lambda>v.
         let seci = v div 10; secd_us = usec v in
         ebind (bits_2_int (slice 12 24 dateb) True) (\<lambda>year.
         ebind (bits_2_int (slice 6 12 dateb) True) (\<lambda>month.
         ebind (bits_2_int (slice 0 6 dateb) True) (\<lambda>day.
         ebind (bits_2_int (slice 18 24 timeb) True) (\<lambda>hour.
         ebind (bits_2_int (slice 12 18 timeb) True) (\<lambda>minute.
         datetime_new year month day hour minute seci secd_us)))))))"

definition bruker_datetime :: "pydict \<Rightarrow> (int \<Rightarrow> int) \<Rightarrow> error + pydict" where
  "bruker_datetime spec usec =
     ebind (pop spec ''date_block'') (\<lambda>(d, spec1).
     ebind (as_bytes d) (\<lambda>date_block.
     ebind (pop spec1 ''time_block'') (\<lambda>(t, spec2).
     ebind (as_bytes t) (\<lambda>time_block.
     ebind (bruker_datetime_avg date_block time_block usec) (\<lambda>dt.
       Inr (spec2(''datetime_avg'' \<mapsto> PDatetime dt)))))))"

text \<open>
  \<open>read_bruker\<close> up to line 129: the header block, the name, the point counts and
  the date. The conversions that follow work on floats and cannot raise before the
  division by \<open>n_points\<close>; they and the sample array are not part of this model.
\<close>

definition read_bruker :: "byte list \<Rightarrow> (int \<Rightarrow> int) \<Rightarrow> error + pydict" where
  "read_bruker bytes usec =
     ebind (read_bin_block \<lparr>content = bytes, pos = 0\<rparr> bruker_header_ffmt None Little)
       (\<lambda>(spec, f).
     ebind (getitem spec ''name'') (\<lambda>nm.
     ebind (as_bytes nm) (\<lambda>nb.
     ebind (decode nb) (\<lambda>cs.
     ebind (bruker_check_points (spec(''name'' \<mapsto> PStr (strip cs)))) (\<lambda>spec2.
       bruker_datetime spec2 usec)))))"


text \<open>
  A Bruker header of 1280 bytes with the name \<open>sample\<close>, \<open>n_points = 100\<close> and
  \<open>n_points2 = 101\<close>; every other byte is zero.
\<close>

definition bruker_mismatch_file :: "byte list" where
  "bruker_mismatch_file =
     replicate 4 0 @ [115, 97, 109, 112, 108, 101, 32, 32, 32, 32, 32, 32] @ replicate 4 0
     @ [100, 0, 0, 0] @ replicate 236 0 @ [101, 0, 0, 0] @ replicate 1016 0"

section \<open>FTS1 reader: dates and sample data (io/legacy.py, read_fts1)\<close>











section \<open>Text block reader (utils/io.py) and the Rinsland header (io/_iofmt.py)\<close>

text \<open>
  Regular expressions, for the constructs that \<open>rinsland_header_regex\<close> uses: literal
  characters, the dot, character classes with ranges, \<open>\w\<close> and \<open>\d\<close>, the
  quantifiers \<open>{n}\<close> and \<open>+\<close> (greedy), and named groups. A pattern is the list of
  its tokens; a named group is an opening and a closing token around its content.
  \<open>\w\<close> and \<open>\d\<close> are given for ASCII subject strings.
\<close>

datatype citem = CRange nat nat | CWord | CDigit | CChar nat

datatype atom = ALit nat | AAny | AClass "citem list"

datatype quant = QOne | QTimes nat | QPlus

datatype tok = TAtom atom quant | TOpen string | TClose string

definition ch :: "char \<Rightarrow> nat" where
  "ch c = of_char c"

definition is_digit_cp :: "nat \<Rightarrow> bool" where
  "is_digit_cp c = (48 \<le> c \<and> c \<le> 57)"

definition is_word_cp :: "nat \<Rightarrow> bool" where
  "is_word_cp c = ((48 \<le> c \<and> c \<le> 57) \<or> (65 \<le> c \<and> c \<le> 90) \<or> (97 \<le> c \<and> c \<le> 122) \<or> c = 95)"

fun match_item :: "citem \<Rightarrow> nat \<Rightarrow> bool" where
  "match_item (CRange lo hi) c = (lo \<le> c \<and> c \<le> hi)"
| "match_item CWord c = is_word_cp c"
| "match_item CDigit c = is_digit_cp c"
| "match_item (CChar x) c = (c = x)"

fun match_atom :: "atom \<Rightarrow> nat \<Rightarrow> bool" where
  "match_atom (ALit x) c = (c = x)"
| "match_atom AAny c = (c \<noteq> 10)"
| "match_atom (AClass items) c = list_ex (\<lambda>i. match_item i c) items"

fun first_some :: "'a option list \<Rightarrow> 'a option" where
  "first_some [] = None"
| "first_some (None # r) = first_some r"
| "first_some (Some x # r) = Some x"

text \<open>
  The backtracking matcher, anchored at the start of the subject as \<open>re.match\<close> is.
  Its arguments are the tokens left, the subject left, the groups that are open (each
  with the subject at its opening) and the captures made. A greedy \<open>+\<close> tries the
  longest run first and gives characters back one at a time.
\<close>

fun re_run ::
  "tok list \<Rightarrow> nat list \<Rightarrow> (string \<times> nat list) list \<Rightarrow> (string \<times> nat list) list
     \<Rightarrow> (string \<times> nat list) list option" where
  "re_run [] s opens caps = Some caps"
| "re_run (TOpen n # r) s opens caps = re_run r s ((n, s) # opens) caps"
| "re_run (TClose n # r) s opens caps =
     (case opens of
        [] \<Rightarrow> None
      | (n', s0) # os \<Rightarrow> re_run r s os ((n', take (length s0 - length s) s0) # caps))"
| "re_run (TAtom a QOne # r) s opens caps =
     (case s of
        [] \<Rightarrow> None
      | c # s' \<Rightarrow> if match_atom a c then re_run r s' opens caps else None)"
| "re_run (TAtom a (QTimes n) # r) s opens caps =
     (if n \<le> length s \<and> list_all (match_atom a) (take n s)
      then re_run r (drop n s) opens caps else None)"
| "re_run (TAtom a QPlus # r) s opens caps =
     first_some (map (\<lambda>j. re_run r (drop j s) opens caps)
                   (rev [1..<Suc (length (takeWhile (match_atom a) s))]))"

definition re_match :: "tok list \<Rightarrow> nat list \<Rightarrow> (string \<times> nat list) list option" where
  "re_match regex string = re_run regex string [] []"

definition lits :: "string \<Rightarrow> tok list" where
  "lits s = map (\<lambda>c. TAtom (ALit (ch c)) QOne) s"

definition named :: "string \<Rightarrow> citem list \<Rightarrow> quant \<Rightarrow> tok list" where
  "named n items q = [TOpen n, TAtom (AClass items) q, TClose n]"

definition rinsland_header_regex :: "tok list" where
  "rinsland_header_regex =
     named ''spec_type'' [CRange (ch CHR ''A'') (ch CHR ''Z'')] (QTimes 3) @ lits ''-''
     @ named ''name'' [CWord, CChar (ch CHR ''.'')] (QTimes 12) @ lits '' ''
     @ named ''date'' [CWord, CChar (ch CHR '' '')] (QTimes 11) @ lits ''  ''
     @ named ''resolution'' [CDigit, CChar (ch CHR ''.'')] QPlus @ lits ''mK ''
     @ named ''aperture'' [CDigit, CChar (ch CHR ''.'')] QPlus @ lits '' mm ''
     @ lits ''Ap'' @ [TAtom AAny QOne] @ lits ''ZA=''
     @ named ''zenith_angle'' [CDigit, CChar (ch CHR ''.'')] QPlus @ lits '' ''
     @ lits ''S/N='' @ named ''sn_ratio'' [CDigit, CChar (ch CHR '' '')] QPlus @ lits '' ''
     @ lits ''h='' @ named ''hour_avg'' [CDigit, CChar (ch CHR ''.'')] QPlus"

text \<open>
  The conversions of \<open>rinsland_header_ftype\<close>. \<open>float\<close> and \<open>int\<close> are given on
  the strings the header's groups can capture (decimal digits, a dot, spaces); the
  float of a decimal numeral is kept as its digits and the number of digits after the
  dot. \<open>strptime\<close> with the format \<open>%d %b %Y\<close> reads a day of one or two digits, a
  month abbreviation of the C locale without regard to case and a year of four
  digits, separated by white space, and builds the datetime at midnight.
\<close>

datatype conv = ToStr | ToFloat | ToInt | ToDate

definition digits_val :: "nat list \<Rightarrow> int" where
  "digits_val ds = foldl (\<lambda>acc d. 10 * acc + int (d - 48)) 0 ds"

definition py_float :: "nat list \<Rightarrow> error + pyval" where
  "py_float cs =
     (let s = strip cs;
          ip = takeWhile is_digit_cp s;
          rest = dropWhile is_digit_cp s
      in case rest of
           [] \<Rightarrow> if ip = [] then Inl (ValueError (lit ''could not convert string to float''))
                 else Inr (PFloatDec (digits_val ip) 0)
         | c # fp \<Rightarrow>
             if c = ch CHR ''.'' \<and> list_all is_digit_cp fp \<and> (ip \<noteq> [] \<or> fp \<noteq> [])
             then Inr (PFloatDec (digits_val (ip @ fp)) (length fp))
             else Inl (ValueError (lit ''could not convert string to float'')))"

definition py_int :: "nat list \<Rightarrow> error + pyval" where
  "py_int cs =
     (let s = strip cs
      in if s \<noteq> [] \<and> list_all is_digit_cp s then Inr (PInt (digits_val s))
         else Inl (ValueError (lit ''invalid literal for int() with base 10'')))"

definition lower_cp :: "nat \<Rightarrow> nat" where
  "lower_cp c = (if 65 \<le> c \<and> c \<le> 90 then c + 32 else c)"

definition month_names :: "nat list list" where
  "month_names = map lit [''jan'', ''feb'', ''mar'', ''apr'', ''may'', ''jun'', ''jul'', ''aug'',
                          ''sep'', ''oct'', ''nov'', ''dec'']"

fun find_index :: "'a \<Rightarrow> 'a list \<Rightarrow> nat option" where
  "find_index x [] = None"
| "find_index x (y # ys) = (if x = y then Some 0 else map_option Suc (find_index x ys))"

definition valid_day :: "nat list \<Rightarrow> bool" where
  "valid_day d =
     (case d of
        [a] \<Rightarrow> 49 \<le> a \<and> a \<le> 57
      | [a, b] \<Rightarrow> (a = 51 \<and> (b = 48 \<or> b = 49)) \<or> ((a = 49 \<or> a = 50) \<and> is_digit_cp b)
                  \<or> (a = 48 \<and> 49 \<le> b \<and> b \<le> 57) \<or> (a = 32 \<and> 49 \<le> b \<and> b \<le> 57)
      | _ \<Rightarrow> False)"

definition strptime_dbY :: "nat list \<Rightarrow> error + datetime" where
  "strptime_dbY s =
     (let bad = Inl (ValueError (lit ''time data does not match format''));
          lead = (case s of c # r \<Rightarrow> if c = 32 then [c] else [] | [] \<Rightarrow> []);
          s0 = drop (length lead) s;
          d = lead @ takeWhile (\<lambda>c. \<not> is_space c) s0;
          s1 = dropWhile (\<lambda>c. \<not> is_space c) s0;
          s2 = dropWhile is_space s1;
          b = takeWhile (\<lambda>c. \<not> is_space c) s2;
          s3 = dropWhile (\<lambda>c. \<not> is_space c) s2;
          y = dropWhile is_space s3
      in if \<not> valid_day d \<or> s1 = s2 \<or> s3 = y \<or> length y \<noteq> 4 \<or> \<not> list_all is_digit_cp y
         then bad
         else (case find_index (map lower_cp b) month_names of
                 None \<Rightarrow> bad
               | Some m \<Rightarrow>
                   datetime_new (digits_val y) (int m + 1) (digits_val (dropWhile is_space d))
                     0 0 0 0))"

definition convert :: "conv \<Rightarrow> pyval \<Rightarrow> error + pyval" where
  "convert f v =
     (case v of
        PStr cs \<Rightarrow>
          (case f of
             ToStr \<Rightarrow> Inr (PStr cs)
           | ToFloat \<Rightarrow> py_float cs
           | ToInt \<Rightarrow> py_int cs
           | ToDate \<Rightarrow> ebind (strptime_dbY cs) (\<lambda>d. Inr (PDatetime d)))
      | _ \<Rightarrow> Inl TypeError)"

definition rinsland_header_ftype :: "(string \<times> conv) list" where
  "rinsland_header_ftype =
     [(''spec_type'', ToStr), (''name'', ToStr), (''date'', ToDate), (''resolution'', ToFloat),
      (''aperture'', ToFloat), (''zenith_angle'', ToFloat), (''sn_ratio'', ToInt),
      (''hour_avg'', ToFloat)]"

text \<open>
  \<open>read_str_block\<close>: \<open>re.match(regex, string).groupdict()\<close>, where a failed match is
  \<open>None\<close> and the attribute access raises; then every entry of \<open>ftype\<close> converts its
  field in place.
\<close>

fun apply_ftype :: "(string \<times> conv) list \<Rightarrow> pydict \<Rightarrow> error + pydict" where
  "apply_ftype [] flds = Inr flds"
| "apply_ftype ((k, f) # r) flds =
     ebind (getitem flds k) (\<lambda>v.
     ebind (convert f v) (\<lambda>v'. apply_ftype r (flds(k \<mapsto> v'))))"

definition read_str_block ::
  "nat list \<Rightarrow> tok list \<Rightarrow> (string \<times> conv) list option \<Rightarrow> error + pydict" where
  "read_str_block string regex ftype =
     (case re_match regex string of
        None \<Rightarrow> Inl AttributeError
      | Some caps \<Rightarrow>
          (let flds = map_of (map (\<lambda>(k, v). (k, PStr v)) caps)
           in case ftype of None \<Rightarrow> Inr flds | Some ft \<Rightarrow> apply_ftype ft flds))"

text \<open>
  The header string of the specification's example, and the same string with a name
  of twelve characters.
\<close>

definition example_header :: "nat list" where
  "example_header = lit ''BRA-sample12   01 Jan 2000  100.0mK 12.0 mm Ap.ZA=30.0 S/N=100 h=10.5''"

definition example_header_12 :: "nat list" where
  "example_header_12 =
     lit ''BRA-sample12.dat 01 Jan 2000  100.0mK 12.0 mm Ap.ZA=30.0 S/N=100 h=10.5''"

section \<open>Properties of the bit helpers\<close>

lemma and_one_of_bool: "drop_bit i (k::int) AND 1 = of_bool (bit k i)"
  by (simp add: and_one_eq bit_iff_odd_drop_bit mod_2_eq_odd)

lemma bits8_noswap: "bits8 b False = map (\<lambda>i. of_bool (bit (uint b) i)) [0..<8]"
  by (simp add: bits8_def and_one_of_bool)

lemma bits8_swap: "bits8 b True = rev (bits8 b False)"
  by (simp add: bits8_def)

lemma length_bits8: "length (bits8 b swap) = 8"
  by (simp add: bits8_def Let_def)

lemma set_bits8: "set (bits8 b swap) \<subseteq> {0, 1}"
  by (cases swap) (auto simp: bits8_noswap bits8_swap)

lemma foldr_horner: "foldr (\<lambda>b acc. b + 2 * acc) xs (0::int) = horner_sum id 2 xs"
  by (induction xs) simp_all

lemma horner_bits8: "foldr (\<lambda>b acc. b + 2 * acc) (bits8 b False) 0 = uint b"
proof -
  have "horner_sum id 2 (map (\<lambda>i. of_bool (bit (uint b) i)) [0..<8]) =
        horner_sum of_bool (2::int) (map (bit (uint b)) [0..<8])"
    by (simp add: horner_sum_eq_sum)
  also have "\<dots> = take_bit 8 (uint b)"
    by (rule horner_sum_bit_eq_take_bit)
  also have "\<dots> = uint b"
    using uint_bounded [of b] uint_nonnegative [of b] by (simp add: take_bit_eq_mod)
  finally show ?thesis
    by (simp add: foldr_horner bits8_noswap)
qed

lemma byte_of_bits8: "byte_of_bits (bits8 b swap) swap = b"
  by (cases swap) (simp_all add: byte_of_bits_def bits8_swap horner_bits8)

lemma bits8_explicit:
  "\<exists>b0 b1 b2 b3 b4 b5 b6 b7. bits8 b swap = [b0, b1, b2, b3, b4, b5, b6, b7]"
  by (cases swap) (simp_all add: bits8_def upt_rec numeral_eq_Suc)

lemma bits_2_bytes_step:
  "bits_2_bytes (bits8 b swap @ r) swap = b # bits_2_bytes r swap"
proof -
  obtain b0 b1 b2 b3 b4 b5 b6 b7 where e: "bits8 b swap = [b0, b1, b2, b3, b4, b5, b6, b7]"
    using bits8_explicit by blast
  have "byte_of_bits [b0, b1, b2, b3, b4, b5, b6, b7] swap = b"
    using byte_of_bits8 [of b swap] by (simp only: e)
  then show ?thesis by (simp add: e)
qed

lemma bytes_2_bits_concat: "bytes_2_bits bs swap = concat (map (\<lambda>b. bits8 b swap) bs)"
  by (induction bs) simp_all

lemma length_bytes_2_bits: "length (bytes_2_bits bs swap) = 8 * length bs"
  by (induction bs) (simp_all add: length_bits8)

lemma set_bytes_2_bits: "set (bytes_2_bits bs swap) \<subseteq> {0, 1}"
proof (induction bs)
  case Nil
  show ?case by simp
next
  case (Cons b bs)
  then show ?case using set_bits8 [of b swap] by simp
qed

lemma bits_2_bytes_roundtrip: "bits_2_bytes (bytes_2_bits bs swap) swap = bs"
  by (induction bs) (simp_all add: bits_2_bytes_step)

text \<open>
  C9. For every byte sequence, \<open>bytes_2_bits\<close> emits for each byte its eight bits,
  least significant first (bit \<open>i\<close> of the byte at position \<open>i\<close>), reversed per byte
  when \<open>swap\<close> is set; the output holds only the values 0 and 1 and has length
  eight times the input length; regrouping it into groups of eight reproduces the
  input bytes, with and without \<open>swap\<close>.
\<close>

theorem bytes_2_bits_roundtrip:
  "bytes_2_bits bs swap =
     concat (map (\<lambda>b. (if swap then rev else id)
                         (map (\<lambda>i. of_bool (bit (uint b) i)) [0..<8])) bs)
   \<and> length (bytes_2_bits bs swap) = 8 * length bs
   \<and> set (bytes_2_bits bs swap) \<subseteq> {0, 1}
   \<and> bits_2_bytes (bytes_2_bits bs False) False = bs
   \<and> bits_2_bytes (bytes_2_bits bs True) True = bs"
proof -
  have "(\<lambda>b. bits8 b swap) =
        (\<lambda>b. (if swap then rev else id) (map (\<lambda>i. of_bool (bit (uint b) i)) [0..<8]))"
    by (cases swap) (simp_all add: bits8_swap bits8_noswap)
  then have "bytes_2_bits bs swap =
     concat (map (\<lambda>b. (if swap then rev else id)
                         (map (\<lambda>i. of_bool (bit (uint b) i)) [0..<8])) bs)"
    by (simp only: bytes_2_bits_concat)
  then show ?thesis
    using length_bytes_2_bits [of bs swap] set_bytes_2_bits [of bs swap]
      bits_2_bytes_roundtrip [of bs False] bits_2_bytes_roundtrip [of bs True]
    by blast
qed

section \<open>Properties of the binary block reader\<close>

lemma parse_test: "parse_fmt ''h2xf'' None = Inr [(1, FShort), (2, FPad), (1, FFloat)]"
  by (simp add: ebind_def is_digit_def digit_val_def fcode_of_def)

lemma unpack_test:
  "length bs = 8 \<Longrightarrow> unpack e ''h2xf'' bs =
     Inr [PInt (bytes_sint e (take 2 bs)), PFloat32 (word_of_int (bytes_uint e (take 4 (drop 4 bs))))]"
  unfolding unpack_def parse_test by (simp add: ebind_def)

lemma unpack_test_short:
  "length bs \<noteq> 8 \<Longrightarrow> unpack e ''h2xf'' bs = Inl StructError"
  unfolding unpack_def parse_test by (simp add: ebind_def)

text \<open>
  C5. With the field specifications \<open>[("a","h"), (None,"2x"), ("b","f")]\<close>, on a stream
  that holds at least eight bytes from its position, \<open>read_bin_block\<close> returns exactly
  the mapping of \<open>a\<close> to the signed 16-bit value of the first two bytes and of \<open>b\<close> to
  the float held in bytes 4 to 7, without the padding field, and the position has
  advanced by eight; on a stream with seven bytes left it fails with \<open>struct.error\<close>
  and returns no record.
\<close>

theorem read_bin_block_test_format:
  "(pos f + 8 \<le> length (content f) \<longrightarrow>
      read_bin_block f test_ffmt None Little =
        Inr ([''a'' \<mapsto> PInt (bytes_sint Little (take 2 (drop (pos f) (content f)))),
              ''b'' \<mapsto> PFloat32 (word_of_int
                        (bytes_uint Little (take 4 (drop (pos f + 4) (content f)))))],
             f\<lparr>pos := pos f + 8\<rparr>))
   \<and> (pos f + 7 = length (content f) \<longrightarrow>
        read_bin_block f test_ffmt None Little = Inl StructError)"
proof (intro conjI impI)
  assume h: "pos f + 8 \<le> length (content f)"
  let ?bs = "take 8 (drop (pos f) (content f))"
  have l: "length ?bs = 8" using h by simp
  have t: "take 4 (drop 4 ?bs) = take 4 (drop (pos f + 4) (content f))"
    by (simp add: drop_take add.commute)
  show "read_bin_block f test_ffmt None Little =
        Inr ([''a'' \<mapsto> PInt (bytes_sint Little (take 2 (drop (pos f) (content f)))),
              ''b'' \<mapsto> PFloat32 (word_of_int
                        (bytes_uint Little (take 4 (drop (pos f + 4) (content f)))))],
             f\<lparr>pos := pos f + 8\<rparr>)"
    using l t
    unfolding read_bin_block_def test_ffmt_def calcsize_def
    by (simp add: parse_test ebind_def fread_def
        Let_def unpack_test field_keys_def dict_zip_def fun_eq_iff del: parse_fmt.simps)
next
  assume h: "pos f + 7 = length (content f)"
  let ?bs = "take 8 (drop (pos f) (content f))"
  have l: "length ?bs \<noteq> 8" using h by simp
  show "read_bin_block f test_ffmt None Little = Inl StructError"
    using l
    unfolding read_bin_block_def test_ffmt_def calcsize_def
    by (simp add: parse_test ebind_def fread_def Let_def unpack_test_short del: parse_fmt.simps)
qed

theorem read_bin_block_test_format_witness:
  "read_bin_block \<lparr>content = [1, 2, 3, 4, 5, 6, 7, 8, 9], pos = 0\<rparr> test_ffmt None Little =
     Inr ([''a'' \<mapsto> PInt 513, ''b'' \<mapsto> PFloat32 0x08070605],
          \<lparr>content = [1, 2, 3, 4, 5, 6, 7, 8, 9], pos = 8\<rparr>)
   \<and> read_bin_block \<lparr>content = [1, 2, 3, 4, 5, 6, 7], pos = 0\<rparr> test_ffmt None Little =
       Inl StructError"
  using read_bin_block_test_format [of "\<lparr>content = [1, 2, 3, 4, 5, 6, 7, 8, 9], pos = 0\<rparr>"]
    read_bin_block_test_format [of "\<lparr>content = [1, 2, 3, 4, 5, 6, 7], pos = 0\<rparr>"]
  by (simp add: bytes_sint_def bytes_uint_def)

section \<open>Properties of the SPEC reading loop\<close>



lemma decode_block_ok:
  assumes "parse_fmt (concat (map snd ff)) None = Inr items" and "length bs = items_size items"
  shows "decode_block e ff bs = Inr (dict_zip (field_keys ff) (unpack_items e items bs))"
  using assms by (simp add: decode_block_def unpack_def ebind_def)


lemma read_bin_block_decode:
  assumes "parse_fmt (concat (map snd ff)) None = Inr items"
  shows "read_bin_block f ff None e =
           ebind (decode_block e ff (take (items_size items) (drop (pos f) (content f))))
             (\<lambda>d. Inr (d, f\<lparr>pos := pos f + min (items_size items) (length (content f) - pos f)\<rparr>))"
  using assms
  by (simp add: read_bin_block_def calcsize_def ebind_def fread_def Let_def decode_block_def
      split: sum.splits)








section \<open>Properties of the SPEC record post-processing\<close>

lemma uint_byte_mod: "uint (b::byte) mod 256 = uint b"
  using uint_bounded [of b] uint_nonnegative [of b] by simp

lemma le_uint_concat_bit: "uint (b::byte) + 256 * v = concat_bit 8 (uint b) v"
  by (simp add: concat_bit_eq take_bit_eq_mod push_bit_eq_mult uint_byte_mod)

lemma bit_le_uint_Cons:
  "bit (le_uint (b # bs)) i = (if i < 8 then bit (uint b) i else bit (le_uint bs) (i - 8))"
  by (simp add: le_uint_concat_bit bit_concat_bit_iff)

lemma upt_split8: "[0..<8 + n] = [0..<8] @ map (\<lambda>i. i + 8) [0..<n]"
proof -
  have "[0..<8 + n] = [0..<8] @ [8..<8 + n]"
    by (metis le_add1 upt_add_eq_append zero_le)
  moreover have "[8..<8 + n] = map (\<lambda>i. i + 8) [0..<n]"
    by (simp add: map_add_upt add.commute)
  ultimately show ?thesis by simp
qed

lemma bytes_2_bits_bit:
  "bytes_2_bits bs False = map (\<lambda>i. of_bool (bit (le_uint bs) i)) [0..<8 * length bs]"
proof (induction bs)
  case Nil
  show ?case by simp
next
  case (Cons b bs)
  have "[0..<8 * length (b # bs)] = [0..<8] @ map (\<lambda>i. i + 8) [0..<8 * length bs]"
    using upt_split8 [of "8 * length bs"] by simp
  then show ?case
    by (simp add: Cons.IH bits8_noswap bit_le_uint_Cons comp_def del: le_uint.simps upt.simps)
qed


lemma str_int_of_bool: "str_int (of_bool p) = [bitchar p]"
  by (simp add: str_int_def bitchar_def digit_char_def)

lemma concat_str_bools: "concat (map str_int (map of_bool ps)) = map bitchar ps"
  by (induction ps) (simp_all add: str_int_of_bool)

lemma parse_bin_bools:
  "ps \<noteq> [] \<Longrightarrow> parse_bin (map bitchar ps) = Inr (foldl (\<lambda>acc p. 2 * acc + of_bool p) 0 ps)"
proof -
  assume "ps \<noteq> []"
  have a: "list_all (\<lambda>c. c = CHR ''0'' \<or> c = CHR ''1'') (map bitchar ps)"
    by (induction ps) (simp_all add: bitchar_def)
  have b: "(\<lambda>acc p. 2 * acc + bin_digit (bitchar p)) = (\<lambda>acc p. 2 * acc + of_bool p)"
    by (simp add: fun_eq_iff bin_digit_def bitchar_def)
  show ?thesis
    using \<open>ps \<noteq> []\<close> a by (simp add: parse_bin_def foldl_map b)
qed

lemma int_base2_bools:
  "ps \<noteq> [] \<Longrightarrow> int_base2 (map bitchar ps) = Inr (foldl (\<lambda>acc p. 2 * acc + of_bool p) 0 ps)"
  using parse_bin_bools [of ps]
  by (cases ps) (simp_all add: int_base2_def bitchar_def)

lemma bits_2_int_bools:
  assumes "ps \<noteq> []"
  shows "bits_2_int (map of_bool ps) False = Inr (foldl (\<lambda>acc p. 2 * acc + of_bool p) 0 ps)"
proof -
  have "bits_2_int (map of_bool ps) False = int_base2 (map bitchar ps)"
    by (simp only: bits_2_int_def if_False concat_str_bools)
  then show ?thesis
    by (simp only: int_base2_bools [OF assms])
qed






lemma upt_16: "[0..<16] = [0, 1, 2, 3, 4, 5, 6, 7, 8, 9, 10, 11, 12, 13, 14, 15]"
  by (simp add: upt_rec)

lemma quality_bits:
  assumes "length bs = 2"
  shows "bytes_2_bits bs False =
           map of_bool (map (bit (le_uint bs)) [0, 1, 2, 3, 4, 5, 6, 7, 8, 9, 10, 11, 12, 13, 14, 15])"
  using assms by (simp add: bytes_2_bits_bit upt_16 del: upt.simps)

lemma set_flag_bool:
  "i < length ps \<Longrightarrow>
   set_flag (map of_bool ps) i negate k r =
     Inr (r(k \<mapsto> PBool (if negate then \<not> ps ! i else ps ! i)))"
  by (simp add: set_flag_def index_def ebind_def)

lemma set_bits_bool2:
  "set_bits (map of_bool [p, q]) k r = Inr (r(k \<mapsto> PInt (2 * of_bool p + of_bool q)))"
  using bits_2_int_bools [of "[p, q]"] by (simp add: set_bits_def ebind_def)

lemma set_bits_bool3:
  "set_bits (map of_bool [p, q, s]) k r =
     Inr (r(k \<mapsto> PInt (4 * of_bool p + 2 * of_bool q + of_bool s)))"
  using bits_2_int_bools [of "[p, q, s]"] by (simp add: set_bits_def ebind_def)

text \<open>
  C8 (as amended). For every kept SPEC record the two bytes of \<open>quality\<close>, read as a
  little-endian 16-bit value, decode at fixed bit positions: bit 0 bad spectrum, bit 1
  mean spectrum, bit 2 bad zero, bits 3 and 4 the fringing level (bit 3 is its high
  bit), bit 5 bad signal-to-noise, bit 6 bad line shape, bit 7 the sun-centered flag
  inverted, bits 8 to 11 pollution, slow variation, fast variation and technical
  problem, bits 13 to 15 the weather code (bit 13 is its high bit); bit 12 is unused.
  With only bit 0 set, \<open>is_bad_spectrum\<close> is true, \<open>is_sun_centered\<close> is true as well
  (bit 7 is clear and the flag is inverted), every other flag is false and both
  integers are 0.
\<close>

theorem spec_quality_bits:
  assumes "r ''quality'' = Some (PBytes bs)" and "length bs = 2"
  shows "spec_quality r =
    Inr ((r(''quality'' := None))
      (''is_bad_spectrum'' \<mapsto> PBool (bit (le_uint bs) 0),
       ''is_mean_spectrum'' \<mapsto> PBool (bit (le_uint bs) 1),
       ''is_bad_zero'' \<mapsto> PBool (bit (le_uint bs) 2),
       ''fringing_level'' \<mapsto>
          PInt (2 * of_bool (bit (le_uint bs) 3) + of_bool (bit (le_uint bs) 4)),
       ''has_bad_sn_ratio'' \<mapsto> PBool (bit (le_uint bs) 5),
       ''has_bad_ils'' \<mapsto> PBool (bit (le_uint bs) 6),
       ''is_sun_centered'' \<mapsto> PBool (\<not> bit (le_uint bs) 7),
       ''has_pollution'' \<mapsto> PBool (bit (le_uint bs) 8),
       ''has_slow_signal_variation'' \<mapsto> PBool (bit (le_uint bs) 9),
       ''has_fast_signal_variation'' \<mapsto> PBool (bit (le_uint bs) 10),
       ''has_technical_problem'' \<mapsto> PBool (bit (le_uint bs) 11),
       ''weather_id'' \<mapsto>
          PInt (4 * of_bool (bit (le_uint bs) 13) + 2 * of_bool (bit (le_uint bs) 14)
                + of_bool (bit (le_uint bs) 15))))"
proof -
  define q where "q = le_uint bs"
  define qb where "qb = bytes_2_bits bs False"
  let ?ps = "map (bit q) [0, 1, 2, 3, 4, 5, 6, 7, 8, 9, 10, 11, 12, 13, 14, 15]"
  have qb: "qb = map of_bool ?ps"
    unfolding qb_def q_def by (rule quality_bits [OF assms(2)])
  have fl: "set_flag qb i negate k d =
              Inr (d(k \<mapsto> PBool (if negate then \<not> ?ps ! i else ?ps ! i)))"
    if "i < 16" for i negate k d
    unfolding qb using that by (intro set_flag_bool) simp
  have f0: "set_flag qb 0 False k d = Inr (d(k \<mapsto> PBool (bit q 0)))" for k d
    using fl [of 0 False k d] by simp
  have f1: "set_flag qb 1 False k d = Inr (d(k \<mapsto> PBool (bit q 1)))" for k d
    using fl [of 1 False k d] by simp
  have f2: "set_flag qb 2 False k d = Inr (d(k \<mapsto> PBool (bit q 2)))" for k d
    using fl [of 2 False k d] by simp
  have f5: "set_flag qb 5 False k d = Inr (d(k \<mapsto> PBool (bit q 5)))" for k d
    using fl [of 5 False k d] by simp
  have f6: "set_flag qb 6 False k d = Inr (d(k \<mapsto> PBool (bit q 6)))" for k d
    using fl [of 6 False k d] by simp
  have f7: "set_flag qb 7 True k d = Inr (d(k \<mapsto> PBool (\<not> bit q 7)))" for k d
    using fl [of 7 True k d] by simp
  have f8: "set_flag qb 8 False k d = Inr (d(k \<mapsto> PBool (bit q 8)))" for k d
    using fl [of 8 False k d] by simp
  have f9: "set_flag qb 9 False k d = Inr (d(k \<mapsto> PBool (bit q 9)))" for k d
    using fl [of 9 False k d] by simp
  have f10: "set_flag qb 10 False k d = Inr (d(k \<mapsto> PBool (bit q 10)))" for k d
    using fl [of 10 False k d] by simp
  have f11: "set_flag qb 11 False k d = Inr (d(k \<mapsto> PBool (bit q 11)))" for k d
    using fl [of 11 False k d] by simp
  have "slice 3 5 qb = map of_bool [bit q 3, bit q 4]"
    unfolding qb by (simp add: slice_def)
  then have b2: "set_bits (slice 3 5 qb) k d =
                   Inr (d(k \<mapsto> PInt (2 * of_bool (bit q 3) + of_bool (bit q 4))))" for k d
    by (simp only: set_bits_bool2)
  have "drop 13 qb = map of_bool [bit q 13, bit q 14, bit q 15]"
    unfolding qb by simp
  then have b3: "set_bits (drop 13 qb) k d =
                   Inr (d(k \<mapsto> PInt (4 * of_bool (bit q 13) + 2 * of_bool (bit q 14)
                                         + of_bool (bit q 15))))" for k d
    by (simp only: set_bits_bool3)
  have p: "pop r ''quality'' = Inr (PBytes bs, r(''quality'' := None))"
    by (simp add: pop_def assms(1))
  show ?thesis
    unfolding spec_quality_def p
    by (simp only: ebind_def sum.case prod.case as_bytes_def pyval.case Let_def
        qb_def [symmetric] q_def [symmetric] f0 f1 f2 f5 f6 f7 f8 f9 f10 f11 b2 b3)
qed


theorem spec_quality_bits_witness:
  "spec_quality [''quality'' \<mapsto> PBytes [1, 0]] =
     Inr [''is_bad_spectrum'' \<mapsto> PBool True,
          ''is_mean_spectrum'' \<mapsto> PBool False,
          ''is_bad_zero'' \<mapsto> PBool False,
          ''fringing_level'' \<mapsto> PInt 0,
          ''has_bad_sn_ratio'' \<mapsto> PBool False,
          ''has_bad_ils'' \<mapsto> PBool False,
          ''is_sun_centered'' \<mapsto> PBool True,
          ''has_pollution'' \<mapsto> PBool False,
          ''has_slow_signal_variation'' \<mapsto> PBool False,
          ''has_fast_signal_variation'' \<mapsto> PBool False,
          ''has_technical_problem'' \<mapsto> PBool False,
          ''weather_id'' \<mapsto> PInt 0]"
  using spec_quality_bits [of "[''quality'' \<mapsto> PBytes [1, 0]]" "[1, 0]"]
  by (simp add: bit_1_iff)

text \<open>
  With only bit 0 of \<open>quality\<close> set, \<open>is_sun_centered\<close> is true: not every other flag
  is false.
\<close>

theorem spec_quality_sun_centered_counterexample:
  "(case spec_quality [''quality'' \<mapsto> PBytes [1, 0]] of
      Inl e \<Rightarrow> False
    | Inr r \<Rightarrow> r ''is_bad_spectrum'' = Some (PBool True)
              \<and> r ''is_sun_centered'' = Some (PBool True))"
  by code_simp

lemma bits_2_int_bytes_nonneg:
  assumes "bits_2_int (bytes_2_bits bs False) False = Inr n"
  shows "0 \<le> n"
proof (cases "bs = []")
  case True
  then show ?thesis
    using assms by (simp add: bits_2_int_def int_base2_def parse_bin_def)
next
  case False
  let ?ps = "map (bit (le_uint bs)) [0..<8 * length bs]"
  have ne: "?ps \<noteq> []" using False by simp
  have nn: "0 \<le> foldl (\<lambda>acc p. 2 * acc + of_bool p) a ps" if "0 \<le> a" for a :: int and ps
    using that by (induction ps arbitrary: a) simp_all
  have "bytes_2_bits bs False = map of_bool ?ps"
    by (simp add: bytes_2_bits_bit)
  then have "bits_2_int (bytes_2_bits bs False) False =
               Inr (foldl (\<lambda>acc p. 2 * acc + of_bool p) 0 ?ps)"
    using bits_2_int_bools [OF ne] by simp
  then show ?thesis
    using assms nn [of 0 ?ps] by simp
qed

text \<open>
  C3. The sentinels of \<open>temperature\<close> and \<open>pressure\<close> become NaN, but the two
  one-byte fields decode to a value between 0 and 255 (the byte with its bits
  reversed), so the comparisons with \<open>-99\<close> and \<open>-9\<close> never hold: the bytes \<open>0x9D\<close>
  and \<open>0xF7\<close>, which are \<open>-99\<close> and \<open>-9\<close> as signed bytes, give 185 and 239.
\<close>

theorem spec_undefined_byte_sentinels:
  "(case spec_undefined
           [''relative_humidity'' \<mapsto> PBytes [0x9D], ''tropopause_height'' \<mapsto> PBytes [0xF7],
            ''temperature'' \<mapsto> PInt (- 9999), ''pressure'' \<mapsto> PInt (- 9999)] of
      Inl e \<Rightarrow> False
    | Inr r \<Rightarrow> r ''relative_humidity'' = Some (PInt 185)
              \<and> r ''tropopause_height'' = Some (PInt 239)
              \<and> r ''temperature'' = Some PNaN
              \<and> r ''pressure'' = Some PNaN)"
  by code_simp

section \<open>Properties of the Bruker header post-processing\<close>

lemma parse_bruker_header:
  "parse_fmt (concat (map snd bruker_header_ffmt)) None =
     Inr [(4, FPad), (12, FStr), (4, FPad), (1, FInt), (236, FPad), (1, FInt), (1, FInt),
          (4, FPad), (1, FInt), (1, FInt), (1, FInt), (1, FInt), (1, FInt), (4, FStr),
          (4, FStr), (16, FPad), (1, FInt), (36, FPad), (1, FInt), (12, FPad), (1, FInt),
          (152, FPad), (1, FInt), (1, FInt), (32, FPad), (1, FInt), (124, FPad), (1, FInt),
          (348, FPad), (1, FInt), (1, FInt), (92, FPad), (1, FFloat), (1, FFloat), (124, FPad)]"
  by (simp add: bruker_header_ffmt_def ebind_def is_digit_def digit_val_def fcode_of_def)

lemma read_bruker_header_ok:
  assumes "1280 \<le> length bytes"
  shows "\<exists>spec f. read_bin_block \<lparr>content = bytes, pos = 0\<rparr> bruker_header_ffmt None Little =
            Inr (spec, f)
          \<and> spec ''name'' = Some (PBytes (take 12 (drop 4 bytes)))
          \<and> spec ''n_points'' = Some (PInt (bytes_sint Little (take 4 (drop 20 bytes))))
          \<and> spec ''n_points2'' = Some (PInt (bytes_sint Little (take 4 (drop 260 bytes))))
          \<and> spec ''n_points1'' = None"
proof -
  let ?items = "[(4, FPad), (12, FStr), (4, FPad), (1, FInt), (236, FPad), (1, FInt), (1, FInt),
          (4, FPad), (1, FInt), (1, FInt), (1, FInt), (1, FInt), (1, FInt), (4, FStr),
          (4, FStr), (16, FPad), (1, FInt), (36, FPad), (1, FInt), (12, FPad), (1, FInt),
          (152, FPad), (1, FInt), (1, FInt), (32, FPad), (1, FInt), (124, FPad), (1, FInt),
          (348, FPad), (1, FInt), (1, FInt), (92, FPad), (1, FFloat), (1, FFloat), (124, FPad)]"
  let ?d = "dict_zip (field_keys bruker_header_ffmt) (unpack_items Little ?items (take 1280 bytes))"
  have l: "length (take 1280 bytes) = items_size ?items"
    using assms by simp
  have m: "min 1280 (length bytes) = 1280"
    using assms by simp
  have d: "decode_block Little bruker_header_ffmt (take 1280 bytes) = Inr ?d"
    by (rule decode_block_ok [OF parse_bruker_header l])
  have k: "?d ''name'' = Some (PBytes (take 12 (drop 4 bytes)))
         \<and> ?d ''n_points'' = Some (PInt (bytes_sint Little (take 4 (drop 20 bytes))))
         \<and> ?d ''n_points2'' = Some (PInt (bytes_sint Little (take 4 (drop 260 bytes))))
         \<and> ?d ''n_points1'' = None"
    by (simp add: dict_zip_def field_keys_def bruker_header_ffmt_def drop_take)
  show ?thesis
    using read_bin_block_decode [OF parse_bruker_header, of "\<lparr>content = bytes, pos = 0\<rparr>" Little] d k m
    by (simp add: ebind_def)
qed


lemma bruker_check_points_mismatch:
  assumes "spec ''n_points'' = Some a" and "spec ''n_points2'' = Some b" and "a \<noteq> b"
    and "spec ''name'' = Some nm" and "spec ''n_points1'' = None"
  shows "bruker_check_points spec = Inl (KeyError ''n_points1'')"
  using assms by (simp add: bruker_check_points_def getitem_def ebind_def)

lemma read_bruker_mismatch:
  assumes "1280 \<le> length bytes"
    and "decode (take 12 (drop 4 bytes)) = Inr cs"
    and "bytes_sint Little (take 4 (drop 20 bytes)) \<noteq> bytes_sint Little (take 4 (drop 260 bytes))"
  shows "read_bruker bytes usec = Inl (KeyError ''n_points1'')"
proof -
  obtain spec f where r: "read_bin_block \<lparr>content = bytes, pos = 0\<rparr> bruker_header_ffmt None Little =
            Inr (spec, f)"
    and n: "spec ''name'' = Some (PBytes (take 12 (drop 4 bytes)))"
    and p1: "spec ''n_points'' = Some (PInt (bytes_sint Little (take 4 (drop 20 bytes))))"
    and p2: "spec ''n_points2'' = Some (PInt (bytes_sint Little (take 4 (drop 260 bytes))))"
    and p3: "spec ''n_points1'' = None"
    using read_bruker_header_ok [OF assms(1)] by blast
  let ?spec1 = "spec(''name'' \<mapsto> PStr (strip cs))"
  have c: "bruker_check_points ?spec1 = Inl (KeyError ''n_points1'')"
    by (rule bruker_check_points_mismatch
          [of _ "PInt (bytes_sint Little (take 4 (drop 20 bytes)))"
              "PInt (bytes_sint Little (take 4 (drop 260 bytes)))" "PStr (strip cs)"])
       (simp_all add: p1 p2 p3 assms(3))
  show ?thesis
    by (simp add: read_bruker_def r n assms(2) c getitem_def as_bytes_def ebind_def)
qed

text \<open>
  C1. A Bruker file whose two point counts differ makes \<open>read_bruker\<close> fail, but not
  with the validation error that names the file and both counts: building the message
  looks up the key \<open>n_points1\<close>, which no header has, so the failure is a \<open>KeyError\<close>.
\<close>

theorem read_bruker_mismatch_keyerror:
  "length bruker_mismatch_file = 1280
   \<and> bytes_sint Little (take 4 (drop 20 bruker_mismatch_file)) = 100
   \<and> bytes_sint Little (take 4 (drop 260 bruker_mismatch_file)) = 101
   \<and> read_bruker bruker_mismatch_file usec = Inl (KeyError ''n_points1'')"
proof -
  have l: "1280 \<le> length bruker_mismatch_file"
    by (simp add: bruker_mismatch_file_def)
  have n: "take 12 (drop 4 bruker_mismatch_file) =
             [115, 97, 109, 112, 108, 101, 32, 32, 32, 32, 32, 32]"
    by (simp add: bruker_mismatch_file_def)
  have d: "decode (take 12 (drop 4 bruker_mismatch_file)) =
             Inr [115, 97, 109, 112, 108, 101, 32, 32, 32, 32, 32, 32]"
    unfolding n by (simp add: decode_def ebind_def)
  have a: "bytes_sint Little (take 4 (drop 20 bruker_mismatch_file)) = 100"
    by (simp add: bruker_mismatch_file_def bytes_sint_def bytes_uint_def)
  have b: "bytes_sint Little (take 4 (drop 260 bruker_mismatch_file)) = 101"
    by (simp add: bruker_mismatch_file_def bytes_sint_def bytes_uint_def)
  have "read_bruker bruker_mismatch_file usec = Inl (KeyError ''n_points1'')"
    by (rule read_bruker_mismatch [OF l d]) (simp add: a b)
  then show ?thesis
    using a b by (simp add: bruker_mismatch_file_def)
qed





section \<open>Properties of the FTS1 reader\<close>

lemma datetime_new_jan1:
  "1 \<le> y \<Longrightarrow> y \<le> 9999 \<Longrightarrow>
   datetime_new y 1 1 0 0 0 0 =
     Inr \<lparr>dt_ordinal = ymd2ord y 1 1, dt_hour = 0, dt_minute = 0, dt_second = 0,
            dt_microsecond = 0\<rparr>"
  by (simp add: datetime_new_def days_in_month_def)
















section \<open>Properties of the text block reader\<close>

lemma example_header_no_match: "re_match rinsland_header_regex example_header = None"
  by code_simp

lemma example_header_12_match:
  "re_match rinsland_header_regex example_header_12 =
     Some [(''hour_avg'', lit ''10.5''), (''sn_ratio'', lit ''100''),
           (''zenith_angle'', lit ''30.0''), (''aperture'', lit ''12.0''),
           (''resolution'', lit ''100.0''), (''date'', lit ''01 Jan 2000''),
           (''name'', lit ''sample12.dat''), (''spec_type'', lit ''BRA'')]"
  by code_simp

lemma conv_date: "strptime_dbY (lit ''01 Jan 2000'') = datetime_new 2000 1 1 0 0 0 0"
  by (simp add: strptime_dbY_def lit_def is_space_def valid_day_def is_digit_cp_def Let_def
      month_names_def lower_cp_def digits_val_def)

lemma conv_values:
  "py_float (lit ''100.0'') = Inr (PFloatDec 1000 1)"
  "py_float (lit ''12.0'') = Inr (PFloatDec 120 1)"
  "py_float (lit ''30.0'') = Inr (PFloatDec 300 1)"
  "py_float (lit ''10.5'') = Inr (PFloatDec 105 1)"
  "py_int (lit ''100'') = Inr (PInt 100)"
  by (simp_all add: py_float_def py_int_def strip_def lit_def is_space_def is_digit_cp_def
      Let_def digits_val_def ch_def)

text \<open>
  The header string of the example does not match the Rinsland pattern: after \<open>BRA-\<close>
  the name group needs twelve characters out of letters, digits, underscore and dot,
  and \<open>sample12\<close> is followed by spaces. \<open>re.match\<close> returns \<open>None\<close> and the call fails.
\<close>

theorem read_str_block_example_counterexample:
  "read_str_block example_header rinsland_header_regex (Some rinsland_header_ftype) =
     Inl AttributeError"
  by (simp only: read_str_block_def example_header_no_match option.case)

text \<open>
  C4 (as amended). \<open>read_str_block\<close> with the Rinsland pattern and field types fails
  on the string of the example; on the same string with a name of twelve characters
  it succeeds and yields \<open>spec_type = "BRA"\<close>, \<open>date = datetime(2000, 1, 1)\<close>,
  \<open>resolution = 100.0\<close> and \<open>sn_ratio = 100\<close> as an integer.
\<close>

theorem read_str_block_rinsland_example:
  "read_str_block example_header rinsland_header_regex (Some rinsland_header_ftype) =
     Inl AttributeError
   \<and> (case read_str_block example_header_12 rinsland_header_regex (Some rinsland_header_ftype) of
        Inl e \<Rightarrow> False
      | Inr f \<Rightarrow> f ''spec_type'' = Some (PStr (lit ''BRA''))
                \<and> (case f ''date'' of
                      Some (PDatetime d) \<Rightarrow> datetime_new 2000 1 1 0 0 0 0 = Inr d
                    | _ \<Rightarrow> False)
                \<and> f ''resolution'' = Some (PFloatDec 1000 1)
                \<and> f ''sn_ratio'' = Some (PInt 100))"
proof -
  have a: "read_str_block example_header rinsland_header_regex (Some rinsland_header_ftype) =
     Inl AttributeError"
    by (simp only: read_str_block_def example_header_no_match option.case)
  have b: "(case read_str_block example_header_12 rinsland_header_regex (Some rinsland_header_ftype) of
        Inl e \<Rightarrow> False
      | Inr f \<Rightarrow> f ''spec_type'' = Some (PStr (lit ''BRA''))
                \<and> (case f ''date'' of
                      Some (PDatetime d) \<Rightarrow> datetime_new 2000 1 1 0 0 0 0 = Inr d
                    | _ \<Rightarrow> False)
                \<and> f ''resolution'' = Some (PFloatDec 1000 1)
                \<and> f ''sn_ratio'' = Some (PInt 100))"
    unfolding read_str_block_def example_header_12_match
    by (simp add: rinsland_header_ftype_def getitem_def ebind_def convert_def conv_values
        conv_date datetime_new_jan1)
  show ?thesis using a b by (rule conjI)
qed

end
